theory Spec2Isabelle
  imports Main
begin

section \<open>GARNET pipeline driver (scripts/garnet.py)\<close>

text \<open>
  The driver reads a configuration, derives the name of every intermediate file from the
  name of the previous one, and calls one external script per step through
  \<^verbatim>\<open>os.system\<close>, unless the file the step would write is already there.
  The model keeps the source's function names. Python's \<^verbatim>\<open>None\<close> is the
  \<open>None\<close> of \<open>string option\<close>; an exception is the \<open>Inl\<close> of a sum.
\<close>

subsection \<open>Library functions the driver uses\<close>

text \<open>
  \<^verbatim>\<open>posixpath.join(a, b)\<close> with two arguments: an absolute \<open>b\<close> replaces
  \<open>a\<close>; otherwise a slash is inserted unless \<open>a\<close> is empty or ends with one.
\<close>

definition os_path_join :: "string \<Rightarrow> string \<Rightarrow> string" where
  "os_path_join a b =
     (if take 1 b = ''/'' then b
      else if a = [] \<or> last a = CHR ''/'' then a @ b
      else a @ ''/'' @ b)"

text \<open>\<^verbatim>\<open>posixpath.basename(p)\<close>: what follows the last slash.\<close>

definition os_path_basename :: "string \<Rightarrow> string" where
  "os_path_basename p = rev (takeWhile (\<lambda>c. c \<noteq> CHR ''/'') (rev p))"

text \<open>\<^verbatim>\<open>str.rfind\<close> for one character: the last index, or \<open>-1\<close>.\<close>

definition rfind :: "char \<Rightarrow> string \<Rightarrow> int" where
  "rfind c p =
     (if c \<in> set p then int (length p) - 1 - int (length (takeWhile (\<lambda>x. x \<noteq> c) (rev p)))
      else - 1)"

text \<open>
  \<^verbatim>\<open>posixpath.splitext(p)\<close> (\<^verbatim>\<open>genericpath._splitext\<close>): split at the last
  dot when it lies after the last slash and the file name has a character other than a dot
  before it; otherwise the extension is empty.
\<close>

definition os_path_splitext :: "string \<Rightarrow> string \<times> string" where
  "os_path_splitext p =
     (let sepIndex = rfind (CHR ''/'') p;
          dotIndex = rfind (CHR ''.'') p
      in if dotIndex > sepIndex \<and>
            list_ex (\<lambda>c. c \<noteq> CHR ''.'')
              (take (nat (dotIndex - (sepIndex + 1))) (drop (nat (sepIndex + 1)) p))
         then (take (nat dotIndex) p, drop (nat dotIndex) p)
         else (p, []))"

text \<open>
  \<^verbatim>\<open>re.sub(pattern, repl, string)\<close> for the patterns the driver uses
  (\<^verbatim>\<open>'.fasta'\<close>, \<^verbatim>\<open>'.xls'\<close>, \<^verbatim>\<open>'.tamo'\<close>, \<^verbatim>\<open>'.txt'\<close>,
  \<^verbatim>\<open>'.tgm'\<close>, \<^verbatim>\<open>'.pkl'\<close>): a non-empty sequence of pattern characters, where
  the dot stands for any character but the newline and a letter for itself. The
  replacement strings of the driver hold no backslash, so they are inserted as they are.
  \<open>re_match pat s\<close> says that the pattern matches at the start of \<open>s\<close>;
  \<open>re_sub\<close> scans from the left and, \<^verbatim>\<open>count\<close> being left at its default,
  replaces every match it meets, going on behind the matched text.
\<close>

fun re_match :: "string \<Rightarrow> string \<Rightarrow> bool" where
  "re_match [] s = True"
| "re_match (p # ps) [] = False"
| "re_match (p # ps) (c # cs) =
     ((if p = CHR ''.'' then c \<noteq> CHR 0x0A else c = p) \<and> re_match ps cs)"

function re_sub :: "string \<Rightarrow> string \<Rightarrow> string \<Rightarrow> string" where
  "re_sub pat repl [] = []"
| "re_sub pat repl (c # cs) =
     (if pat \<noteq> [] \<and> re_match pat (c # cs)
      then repl @ re_sub pat repl (drop (length pat) (c # cs))
      else c # re_sub pat repl cs)"
  by pat_completeness auto
termination
  by (relation "measure (\<lambda>(pat, repl, s). length s)") (auto simp: neq_Nil_conv)

text \<open>
  Substitution of the first match only (\<^verbatim>\<open>count=1\<close>). The driver never asks for it;
  it is here to be compared with what the driver does.
\<close>

fun re_sub_first :: "string \<Rightarrow> string \<Rightarrow> string \<Rightarrow> string" where
  "re_sub_first pat repl [] = []"
| "re_sub_first pat repl (c # cs) =
     (if pat \<noteq> [] \<and> re_match pat (c # cs)
      then repl @ drop (length pat) (c # cs)
      else c # re_sub_first pat repl cs)"

text \<open>No match of the pattern starts inside \<open>stem\<close> when \<open>stem\<close> is followed by \<open>s\<close>.\<close>

fun no_match_in :: "string \<Rightarrow> string \<Rightarrow> string \<Rightarrow> bool" where
  "no_match_in pat [] s = True"
| "no_match_in pat (c # cs) s = (\<not> re_match pat (c # cs @ s) \<and> no_match_in pat cs s)"

subsection \<open>The file system, the shell and the console\<close>

text \<open>
  What the driver sees of the outside: the set of paths for which
  \<^verbatim>\<open>os.path.exists\<close> answers true, the commands given to \<^verbatim>\<open>os.system\<close> so
  far (each with the step that issued it and the status it returned), and the lines
  printed. The external scripts are not part of the driver: a \<open>shell\<close> says, for a
  command and the files present, which status comes back and which files are present
  afterwards.
\<close>

datatype stage =
  MakeDir | GeneRegionMapping | MotifScanning | BindingMatrixConstruction
  | NetworkExport | Regression

record world =
  files :: "string set"
  calls :: "(stage \<times> string \<times> int) list"
  out :: "string list"

type_synonym shell = "string \<Rightarrow> string set \<Rightarrow> int \<times> string set"

definition os_path_exists :: "string \<Rightarrow> world \<Rightarrow> bool" where
  "os_path_exists p w = (p \<noteq> [] \<and> p \<in> files w)"

definition os_system :: "shell \<Rightarrow> stage \<Rightarrow> string \<Rightarrow> world \<Rightarrow> int \<times> world" where
  "os_system sys tag cmd w =
     (let (res, fs) = sys cmd (files w)
      in (res, w\<lparr>files := fs, calls := calls w @ [(tag, cmd, res)]\<rparr>))"

definition print :: "string \<Rightarrow> world \<Rightarrow> world" where
  "print s w = w\<lparr>out := out w @ [s]\<rparr>"

text \<open>
  The exceptions that can end the driver. \<^verbatim>\<open>sys.exit()\<close> with no argument raises
  \<^verbatim>\<open>SystemExit(None)\<close>, on which the interpreter leaves with status 0; any other
  uncaught exception leaves with status 1, as does no exception with status 0.
\<close>

datatype error =
  SystemExit
  | NoSectionError string
  | NoOptionError string string
  | UnboundLocalError string
  | TypeError

definition exit_status :: "error + 'a \<Rightarrow> int" where
  "exit_status r = (case r of Inr v \<Rightarrow> 0 | Inl SystemExit \<Rightarrow> 0 | Inl e \<Rightarrow> 1)"

definition and_then ::
  "(error + 'a) \<times> world \<Rightarrow> ('a \<Rightarrow> world \<Rightarrow> (error + 'b) \<times> world) \<Rightarrow> (error + 'b) \<times> world" where
  "and_then r k = (case r of (Inl e, w) \<Rightarrow> (Inl e, w) | (Inr v, w) \<Rightarrow> k v w)"

subsection \<open>The configuration\<close>

text \<open>
  The table \<^verbatim>\<open>ConfigParser\<close> holds after \<^verbatim>\<open>config.read\<close>: sections, and in each
  the options with their values. \<^verbatim>\<open>config.get\<close> raises when the section or the option
  is not there; otherwise it returns the value, a string (empty for \<^verbatim>\<open>key=\<close>).
  The result type leaves room for the \<^verbatim>\<open>None\<close> the driver tests for.
\<close>

type_synonym config = "(string \<times> (string \<times> string) list) list"

definition config_get :: "config \<Rightarrow> string \<Rightarrow> string \<Rightarrow> error + string option" where
  "config_get config section option =
     (case map_of config section of
        None \<Rightarrow> Inl (NoSectionError section)
      | Some opts \<Rightarrow>
          (case map_of opts option of
             None \<Rightarrow> Inl (NoOptionError option section)
           | Some v \<Rightarrow> Inr (Some v)))"

text \<open>\<^verbatim>\<open>x is None or x==''\<close> fails exactly when \<open>nonblank x\<close> is some string.\<close>

definition nonblank :: "string option \<Rightarrow> string option" where
  "nonblank x = (case x of None \<Rightarrow> None | Some s \<Rightarrow> if s = [] then None else Some s)"

subsection \<open>Names of the intermediate files\<close>

text \<open>Lines 49 to 52: the directory and the file of the gene-region mapping.\<close>

definition events_outdir :: "string \<Rightarrow> string \<Rightarrow> string option \<Rightarrow> string" where
  "events_outdir bedfile window outdir =
     (case outdir of
        None \<Rightarrow> fst (os_path_splitext (os_path_basename bedfile)) @ ''eventsWithin'' @ window
      | Some d \<Rightarrow> d)"

definition events_outfile :: "string \<Rightarrow> string \<Rightarrow> string option \<Rightarrow> string" where
  "events_outfile bedfile window outdir =
     events_outdir bedfile window outdir @ ''/events_to_genes.xls''"

text \<open>Lines 79 to 82: the file of the motif scan.\<close>

definition motif_binding_out_name :: "string \<Rightarrow> string \<Rightarrow> string" where
  "motif_binding_out_name fastafile closest_gene_file =
     (if closest_gene_file = [] then re_sub ''.fasta'' ''_with_motifs.txt'' fastafile
      else re_sub ''.xls'' ''_with_motifs.txt'' closest_gene_file)"

text \<open>
  Lines 102 to 109: the list of identifiers that goes with the motif library, and the file
  of source names looked for beside it (under the base name of the library).
\<close>

definition tfids_name :: "bool \<Rightarrow> string \<Rightarrow> string" where
  "tfids_name use_uniprot tamo_file =
     (if use_uniprot then re_sub ''.tamo'' ''_up_tfids.txt'' tamo_file
      else re_sub ''.tamo'' ''_tfids.txt'' tamo_file)"

definition source_names_name :: "string \<Rightarrow> string" where
  "source_names_name base = re_sub ''.tamo'' ''_source_names.txt'' base"

text \<open>
  Lines 104, 106 and 116: the matrix file, derived from the file of the motif scan, and
  its pickle, derived from the matrix file.
\<close>

definition matfile_name :: "string \<Rightarrow> string" where
  "matfile_name motif_binding_out = re_sub ''.txt'' ''.tgm'' motif_binding_out"

definition pickle_name :: "string \<Rightarrow> string" where
  "pickle_name matfile = re_sub ''.tgm'' ''.pkl'' matfile"

definition pklfile_name :: "string \<Rightarrow> string" where
  "pklfile_name motif_binding_out = pickle_name (matfile_name motif_binding_out)"

text \<open>Line 133: the file of the regression results.\<close>

definition regression_outdir :: "string \<Rightarrow> string" where
  "regression_outdir pickle_file = re_sub ''.pkl'' ''regression_results.xls'' pickle_file"

text \<open>Line 225: the fasta file handed to the construction of the binding matrix.\<close>

definition newfasta_name :: "string \<Rightarrow> string" where
  "newfasta_name outfile = re_sub ''.xls'' ''.fsa'' outfile"

subsection \<open>The four steps that write a file\<close>

definition mapGenesToRegions ::
  "shell \<Rightarrow> string \<Rightarrow> string \<Rightarrow> string option \<Rightarrow> string \<Rightarrow> string \<Rightarrow> string option
     \<Rightarrow> world \<Rightarrow> (error + int \<times> string) \<times> world" where
  "mapGenesToRegions sys progdir genefile xreffile bedfile window outdir0 w =
     (let outdir = events_outdir bedfile window outdir0;
          outfile = outdir @ ''/events_to_genes.xls'';
          w1 = (if \<not> os_path_exists outdir w
                then snd (os_system sys MakeDir (''mkdir '' @ outdir) w) else w)
      in case xreffile of
           None \<Rightarrow> (Inl TypeError, w1)
         | Some xref \<Rightarrow>
             (let cmd = ''python '' @ os_path_join progdir ''map_peaks_to_known_genes.py''
                    @ '' --peaks-format=BED --utilpath='' @ os_path_join progdir ''../src/''
                    @ '' --upstream-window='' @ window @ '' --downstream-window='' @ window
                    @ '' --tss --map-output='' @ outfile @ '' --symbol-xref='' @ xref
                    @ '' '' @ genefile @ '' '' @ bedfile
              in if \<not> os_path_exists outfile w1 then
                   (let w2 = print ''\<newline>-----------------------------Gene-region mapping output------------------------------------------\<newline>'' w1;
                        w3 = print (''Running command:\<newline>'' @ cmd @ ''\<newline>'') w2;
                        w4 = print (''Mapping genes from '' @ genefile @ '' to regions within ''
                                @ window @ '' bp of events from '' @ bedfile
                                @ '' and putting results in '' @ outfile) w3;
                        (res, w5) = os_system sys GeneRegionMapping cmd w4
                    in (Inr (res, outfile), w5))
                 else
                   (Inr (0, outfile),
                    print (''File '' @ outfile
                      @ '' already exists. If you would like to replace it, delete and re-run'') w1)))"

definition motifScanning ::
  "shell \<Rightarrow> string \<Rightarrow> string \<Rightarrow> string \<Rightarrow> string \<Rightarrow> string \<Rightarrow> string
     \<Rightarrow> world \<Rightarrow> (int \<times> string) \<times> world" where
  "motifScanning sys progdir tamo_file fastafile numthreads genome closest_gene_file w =
     (let motif_binding_out = motif_binding_out_name fastafile closest_gene_file
      in if os_path_exists motif_binding_out w then
           ((0, motif_binding_out),
            print (''\<newline>Intermediate file '' @ motif_binding_out
              @ '' already exists, if you would like to replace, delete and re-run'') w)
         else
           (let scan_cmd = ''python '' @ os_path_join progdir ''motif_fsa_scores.py''
                  @ '' --motif='' @ tamo_file @ '' --genome='' @ genome
                  @ '' --outfile='' @ motif_binding_out @ '' --genefile='' @ closest_gene_file
                  @ '' --scale=10 --threads='' @ numthreads @ '' '' @ fastafile;
                w1 = print ''\<newline>-----------------------------Motif Scanning Output------------------------------------------\<newline>'' w;
                w2 = print (''Running command:\<newline>'' @ scan_cmd @ ''\<newline>'') w1;
                w3 = print (''Scanning regions from '' @ fastafile @ '' using matrices from ''
                        @ tamo_file @ '' and putting results in '' @ motif_binding_out) w2;
                (res, w4) = os_system sys MotifScanning scan_cmd w3
            in ((res, motif_binding_out), w4)))"

definition createBindingMatrix ::
  "shell \<Rightarrow> string \<Rightarrow> string \<Rightarrow> string \<Rightarrow> string \<Rightarrow> string \<Rightarrow> bool
     \<Rightarrow> world \<Rightarrow> (int \<times> string) \<times> world" where
  "createBindingMatrix sys progdir motif_binding_out outfile fastafile tamo_file use_uniprot w =
     (let tfs0 = tfids_name use_uniprot tamo_file;
          matfile = matfile_name motif_binding_out;
          extra_file = source_names_name (os_path_basename tamo_file);
          tfs = (if os_path_exists extra_file w then tfs0 @ '','' @ extra_file else tfs0);
          map_cmd = ''python '' @ os_path_join progdir ''get_window_binding_matrix.py''
             @ '' '' @ motif_binding_out @ '' '' @ outfile @ '' '' @ '' '' @ fastafile
             @ '' --distance-to-gene='' @ [CHR 0x27, CHR 0x27] @ '' --motif-id-list='' @ tfs
             @ '' --outfile='' @ matfile;
          pklfile = pklfile_name motif_binding_out
      in if os_path_exists pklfile w then
           ((0, pklfile),
            print (''\<newline>Intermediate file '' @ pklfile
              @ '' already exists, if you would like to replace delete and re-run'') w)
         else
           (let w1 = print ''\<newline>-----------------------------Binding Matrix Output------------------------------------------\<newline>'' w;
                w2 = print (''Running command:\<newline>'' @ map_cmd @ ''\<newline>'') w1;
                (res, w3) = os_system sys BindingMatrixConstruction map_cmd w2
            in ((res, pklfile), w3)))"

text \<open>Lines 137 to 147: the command line of the regression.\<close>

definition regression_cmd ::
  "string \<Rightarrow> string \<Rightarrow> string \<Rightarrow> string \<Rightarrow> string option \<Rightarrow> string option \<Rightarrow> string" where
  "regression_cmd progdir outdir pickle_file expressionfile pvalT qvalT =
     (let cmd = ''python '' @ os_path_join progdir ''motif_regression.py'' @ '' --outdir=''
                  @ outdir @ '' '' @ pickle_file @ '' '' @ expressionfile;
          (thresh, cmd) =
             (case nonblank pvalT of
                None \<Rightarrow>
                  (case nonblank qvalT of
                     None \<Rightarrow> (''0.05'', cmd)
                   | Some q \<Rightarrow> (q, cmd @ '' --use-qval''))
              | Some p \<Rightarrow> (p, cmd))
      in cmd @ '' --thresh='' @ thresh)"

definition getTfsFromRegression ::
  "shell \<Rightarrow> string \<Rightarrow> string \<Rightarrow> string \<Rightarrow> string option \<Rightarrow> string option
     \<Rightarrow> world \<Rightarrow> (int \<times> string) \<times> world" where
  "getTfsFromRegression sys progdir pickle_file expressionfile pvalT qvalT w =
     (let outdir = regression_outdir pickle_file;
          w1 = print outdir w
      in if \<not> os_path_exists outdir w1 then
           (let cmd = regression_cmd progdir outdir pickle_file expressionfile pvalT qvalT;
                w2 = print ''\<newline>-----------------------------Regression Output------------------------------------------\<newline>'' w1;
                w3 = print (''Running command:\<newline>'' @ cmd @ ''\<newline>'') w2;
                (res, w4) = os_system sys Regression cmd w3
            in ((res, outdir), w4))
         else ((0, outdir), w1))"

subsection \<open>The driver\<close>

text \<open>
  The options of the command line, as \<^verbatim>\<open>OptionParser\<close> returns them:
  \<^verbatim>\<open>--outdir\<close> (default \<^verbatim>\<open>None\<close>), \<^verbatim>\<open>--utilpath\<close> and \<^verbatim>\<open>--allGenes\<close>.
  The two insertions into \<^verbatim>\<open>sys.path\<close> (lines 170 and 171) touch nothing the
  driver reads later and are left out.
\<close>

record options =
  opt_outdir :: "string option"
  opt_addpath :: string
  opt_allgenes :: bool

text \<open>
  \<^verbatim>\<open>main\<close> returns nothing; the model returns the file names its local variables
  hold at the end, \<open>None\<close> for a variable that was never assigned.
\<close>

record artifacts =
  art_outfile :: string
  art_binding_out :: "string option"
  art_binding_matrix :: string
  art_tfs :: "string option"

definition with_value ::
  "error + 'a \<Rightarrow> ('a \<Rightarrow> world \<Rightarrow> (error + 'b) \<times> world) \<Rightarrow> world \<Rightarrow> (error + 'b) \<times> world" where
  "with_value r k w = (case r of Inl e \<Rightarrow> (Inl e, w) | Inr v \<Rightarrow> k v w)"

text \<open>\<^verbatim>\<open>if keeprunning!=0: print msg; sys.exit()\<close>\<close>

definition stop_unless_zero ::
  "int \<Rightarrow> string \<Rightarrow> 'a \<Rightarrow> world \<Rightarrow> (error + 'a) \<times> world" where
  "stop_unless_zero keeprunning msg v w =
     (if keeprunning \<noteq> 0 then (Inl SystemExit, print msg w) else (Inr v, w))"

text \<open>Lines 186 to 188, 205 to 207 and 237 to 239: a value read, then its default.\<close>

definition get_window :: "config \<Rightarrow> error + string" where
  "get_window config =
     (case config_get config ''chromatinData'' ''windowsize'' of
        Inl e \<Rightarrow> Inl e
      | Inr window \<Rightarrow> Inr (case window of None \<Rightarrow> ''2000'' | Some s \<Rightarrow> s))"

definition get_numthreads :: "config \<Rightarrow> error + string" where
  "get_numthreads config =
     (case config_get config ''motifData'' ''numthreads'' of
        Inl e \<Rightarrow> Inl e
      | Inr numthreads \<Rightarrow> Inr (case numthreads of None \<Rightarrow> ''1'' | Some s \<Rightarrow> s))"

definition get_delim :: "config \<Rightarrow> error + string" where
  "get_delim config =
     (case config_get config ''motifData'' ''tfDelimiter'' of
        Inl e \<Rightarrow> Inl e
      | Inr delim \<Rightarrow> Inr (case delim of None \<Rightarrow> [] | Some s \<Rightarrow> s))"

text \<open>Lines 182 to 200. The result is \<open>(keeprunning, outfile)\<close>.\<close>

definition step1 ::
  "shell \<Rightarrow> string \<Rightarrow> options \<Rightarrow> config \<Rightarrow> world \<Rightarrow> (error + int \<times> string) \<times> world" where
  "step1 sys progdir opts config =
     with_value (config_get config ''chromatinData'' ''genefile'') (\<lambda>genefile.
     with_value (config_get config ''chromatinData'' ''bedfile'') (\<lambda>bedfile.
     with_value (config_get config ''chromatinData'' ''xreffile'') (\<lambda>xref.
     with_value (get_window config) (\<lambda>window w.
       case (genefile, bedfile) of
         (Some g, Some b) \<Rightarrow>
           and_then (mapGenesToRegions sys progdir g xref b window (opt_outdir opts) w)
             (\<lambda>(keeprunning, outfile).
                stop_unless_zero keeprunning
                  ''Error running gene mapping step, check your files and try again''
                  (keeprunning, outfile))
       | _ \<Rightarrow>
           (Inl SystemExit,
            print ''Missing genefile,bedfile or xref file, cannot map genes to regions.'' w)))))"

text \<open>
  Lines 202 to 221. The result is \<open>(keeprunning, tamofile, genome, binding_out)\<close>, where
  \<open>binding_out\<close> is \<open>None\<close> as long as the variable has not been assigned.
\<close>

definition step2 ::
  "shell \<Rightarrow> string \<Rightarrow> config \<Rightarrow> int \<Rightarrow> string \<Rightarrow> world
     \<Rightarrow> (error + int \<times> string option \<times> string option \<times> string option) \<times> world" where
  "step2 sys progdir config keeprunning outfile =
     with_value (config_get config ''motifData'' ''tamo_file'') (\<lambda>tamofile.
     with_value (config_get config ''motifData'' ''genome'') (\<lambda>genome.
     with_value (get_numthreads config) (\<lambda>numthreads.
     with_value (config_get config ''chromatinData'' ''fastafile'') (\<lambda>fastafile w.
       case (nonblank tamofile, genome, nonblank fastafile) of
         (Some t, Some g, Some f) \<Rightarrow>
           (let ((keeprunning, binding_out), w1) =
                  (if os_path_exists t w \<and> os_path_exists f w
                   then motifScanning sys progdir t f numthreads g outfile w
                   else ((keeprunning, []),
                         print ''Missing FASTA file or TAMO file - check your config file and try again.'' w))
            in stop_unless_zero keeprunning
                 ''Error running motif-scanning step, check your files and try again''
                 (keeprunning, tamofile, genome, Some binding_out) w1)
       | _ \<Rightarrow> (Inr (keeprunning, tamofile, genome, None), w)))))"

text \<open>
  Lines 225 to 233. The result is \<open>(keeprunning, binding_matrix)\<close>. Reading
  \<open>binding_out\<close> while it is unassigned raises; \<^verbatim>\<open>and\<close> reads it only when
  \<open>outfile\<close> is not empty.
\<close>

definition step3 ::
  "shell \<Rightarrow> string \<Rightarrow> int \<Rightarrow> string \<Rightarrow> string option \<Rightarrow> string option \<Rightarrow> world
     \<Rightarrow> (error + int \<times> string) \<times> world" where
  "step3 sys progdir keeprunning outfile tamofile binding_out w =
     (let newfasta = newfasta_name outfile
      in and_then
           (if outfile \<noteq> [] then
              (case binding_out of
                 None \<Rightarrow> (Inl (UnboundLocalError ''binding_out''), w)
               | Some bo \<Rightarrow>
                   if bo \<noteq> [] then
                     (case tamofile of
                        None \<Rightarrow> (Inl TypeError, w)
                      | Some t \<Rightarrow>
                          (let (r, w1) = createBindingMatrix sys progdir bo outfile newfasta t False w
                           in (Inr r, w1)))
                   else (Inr (keeprunning, []), w))
            else (Inr (keeprunning, []), w))
           (\<lambda>(keeprunning, binding_matrix).
              stop_unless_zero keeprunning
                ''Error running matrix creation step, check your files and try again''
                (keeprunning, binding_matrix)))"

text \<open>Lines 236 to 246: the network export, whose status is not looked at.\<close>

definition network_step ::
  "shell \<Rightarrow> string \<Rightarrow> options \<Rightarrow> config \<Rightarrow> string option \<Rightarrow> string \<Rightarrow> world
     \<Rightarrow> (error + unit) \<times> world" where
  "network_step sys progdir opts config genome binding_matrix =
     with_value (config_get config ''motifData'' ''doNetwork'') (\<lambda>do_network.
     with_value (get_delim config) (\<lambda>delim w.
       if nonblank do_network \<noteq> None \<and> do_network \<noteq> Some ''False'' then
         (case genome of
            None \<Rightarrow> (Inl TypeError, w)
          | Some g \<Rightarrow>
              (let cmd = ''python '' @ os_path_join progdir ''zipTgms.py'' @ '' --pkl=''
                     @ binding_matrix @ '' --genome '' @ g @ '' --as-network --tf-delimiter='' @ delim;
                   cmd = (if opt_allgenes opts then cmd @ '' --allGenes'' else cmd);
                   w1 = print cmd w;
                   (res, w2) = os_system sys NetworkExport cmd w1
               in (Inr (), w2)))
       else (Inr (), w)))"

text \<open>Lines 248 to 260. The result is \<open>(keeprunning, tfs)\<close>.\<close>

definition step4 ::
  "shell \<Rightarrow> string \<Rightarrow> config \<Rightarrow> int \<Rightarrow> string \<Rightarrow> world
     \<Rightarrow> (error + int \<times> string option) \<times> world" where
  "step4 sys progdir config keeprunning binding_matrix =
     with_value (config_get config ''expressionData'' ''expressionFile'') (\<lambda>expr.
     with_value (config_get config ''expressionData'' ''pvalThresh'') (\<lambda>pvt.
     with_value (config_get config ''expressionData'' ''qvalThresh'') (\<lambda>qvt w.
       (let ((keeprunning, tfs), w1) =
              (case nonblank expr of
                 Some e \<Rightarrow>
                   if binding_matrix \<noteq> [] \<and> os_path_exists binding_matrix w \<and> os_path_exists e w
                   then (let ((res, outdir), w1) =
                               getTfsFromRegression sys progdir binding_matrix e pvt qvt w
                         in ((res, Some outdir), w1))
                   else ((keeprunning, None),
                         print ''Cannot perform regression because binding matrix or expression datasets are missing'' w)
               | None \<Rightarrow> ((keeprunning, None), w))
        in stop_unless_zero keeprunning
             ''Error running regression step, check your files and try again''
             (keeprunning, tfs) w1))))"

text \<open>
  \<open>args\<close> are the positional arguments; \<open>config\<close> is the table that
  \<^verbatim>\<open>config.read(args[0])\<close> yields, consulted only once the arguments are counted.
\<close>

definition main ::
  "shell \<Rightarrow> string \<Rightarrow> options \<Rightarrow> string list \<Rightarrow> config \<Rightarrow> world \<Rightarrow> (error + artifacts) \<times> world" where
  "main sys progdir opts args config w =
     (if length args \<noteq> 1 then
        (Inl SystemExit,
         print ''Need a configuration file to provide experiment-level details'' w)
      else
        and_then (step1 sys progdir opts config w) (\<lambda>(keeprunning, outfile) w1.
        and_then (step2 sys progdir config keeprunning outfile w1)
          (\<lambda>(keeprunning, tamofile, genome, binding_out) w2.
        and_then (step3 sys progdir keeprunning outfile tamofile binding_out w2)
          (\<lambda>(keeprunning, binding_matrix) w3.
        and_then (network_step sys progdir opts config genome binding_matrix w3) (\<lambda>u w4.
        and_then (step4 sys progdir config keeprunning binding_matrix w4) (\<lambda>(keeprunning, tfs) w5.
          (Inr \<lparr>art_outfile = outfile, art_binding_out = binding_out,
                art_binding_matrix = binding_matrix, art_tfs = tfs\<rparr>, w5)))))))"

subsection \<open>Notions for stating the properties\<close>

text \<open>
  What it means for a way \<open>name\<close> of deriving a file name to replace every match of the
  pattern made of a dot and the letters \<open>lit\<close> by \<open>repl\<close>, seen at a character \<open>c\<close>
  and strings \<open>rest\<close>, \<open>stem\<close> and \<open>s\<close>: a match at the head is replaced whatever its
  first character, the newline apart, and the rest is rewritten in the same way; a newline
  before the letters is no match and is kept; a stem in which no match starts is kept and
  what follows it is rewritten; the empty name stays empty.
\<close>

definition every_match_replaced ::
  "string \<Rightarrow> string \<Rightarrow> (string \<Rightarrow> string) \<Rightarrow> char \<Rightarrow> string \<Rightarrow> string \<Rightarrow> string \<Rightarrow> bool" where
  "every_match_replaced lit repl name c rest stem s =
     ((c \<noteq> CHR 0x0A \<longrightarrow> name (c # lit @ rest) = repl @ name rest) \<and>
      name (CHR 0x0A # lit @ rest) = CHR 0x0A # name (lit @ rest) \<and>
      (no_match_in (CHR ''.'' # lit) stem s \<longrightarrow> name (stem @ s) = stem @ name s) \<and>
      name [] = [])"

text \<open>An option is absent when \<^verbatim>\<open>config.get\<close> has nothing to return for it.\<close>

definition absent :: "config \<Rightarrow> string \<Rightarrow> string \<Rightarrow> bool" where
  "absent config section option =
     (case map_of config section of None \<Rightarrow> True | Some opts \<Rightarrow> map_of opts option = None)"

text \<open>
  The steps after which the driver looks at the status at once (lines 198, 219 and 231),
  a call of such a step that returned a status other than 0, and the line the driver
  prints before it leaves (lines 199, 220 and 232).
\<close>

definition required :: "stage \<Rightarrow> bool" where
  "required st = (st = GeneRegionMapping \<or> st = MotifScanning \<or> st = BindingMatrixConstruction)"

definition failed_call :: "stage \<times> string \<times> int \<Rightarrow> bool" where
  "failed_call c = (required (fst c) \<and> snd (snd c) \<noteq> 0)"

definition abort_message :: "stage \<Rightarrow> string" where
  "abort_message st =
     (if st = GeneRegionMapping then ''Error running gene mapping step, check your files and try again''
      else if st = MotifScanning then ''Error running motif-scanning step, check your files and try again''
      else if st = BindingMatrixConstruction then ''Error running matrix creation step, check your files and try again''
      else [])"

text \<open>
  What holds of every part of a run that starts in \<open>w\<close> and ends with \<open>rw\<close>: the
  calls made before are still there, and among the new ones either none is a failed call,
  or the last one is the only failed call, the driver has left through
  \<^verbatim>\<open>sys.exit()\<close>, and the last line printed names the step.
\<close>

definition stops_at_failure :: "world \<Rightarrow> (error + 'a) \<times> world \<Rightarrow> bool" where
  "stops_at_failure w rw =
     (let cs = drop (length (calls w)) (calls (snd rw))
      in take (length (calls w)) (calls (snd rw)) = calls w \<and>
         (list_all (\<lambda>c. \<not> failed_call c) cs \<or>
          cs \<noteq> [] \<and> list_all (\<lambda>c. \<not> failed_call c) (butlast cs) \<and> failed_call (last cs) \<and>
          fst rw = Inl SystemExit \<and> out (snd rw) \<noteq> [] \<and>
          last (out (snd rw)) = abort_message (fst (last cs))))"

text \<open>
  What holds of one step that starts in \<open>w\<close>, returns the status \<open>res\<close> and ends in
  \<open>w1\<close>: no failed call when the status is 0; otherwise the last call is that of the
  step, with this status, and no call before it is a failed one.
\<close>

definition stage_trace :: "stage \<Rightarrow> world \<Rightarrow> int \<Rightarrow> world \<Rightarrow> bool" where
  "stage_trace tag w res w1 =
     (let cs = drop (length (calls w)) (calls w1)
      in take (length (calls w)) (calls w1) = calls w \<and>
         (res = 0 \<and> list_all (\<lambda>c. \<not> failed_call c) cs \<or>
          res \<noteq> 0 \<and> cs \<noteq> [] \<and> list_all (\<lambda>c. \<not> failed_call c) (butlast cs) \<and>
          fst (last cs) = tag \<and> snd (snd (last cs)) = res))"

subsection \<open>Sample inputs\<close>

text \<open>
  Two shells for trying the driver out: one whose commands all return 0, one whose
  commands all return 1; neither touches a file. The configuration is the one of the
  script's header comment, with short file names.
\<close>

definition sys_ok :: shell where
  "sys_ok cmd fs = (0, fs)"

definition sys_fail :: shell where
  "sys_fail cmd fs = (1, fs)"

text \<open>A shell on which the motif scan alone fails.\<close>

definition sys_scan_fails :: shell where
  "sys_scan_fails cmd fs =
     (if take 30 cmd = ''python bin/motif_fsa_scores.py'' then 1 else 0, fs)"

definition demo_opts :: options where
  "demo_opts = \<lparr>opt_outdir = None, opt_addpath = ''../src'', opt_allgenes = False\<rparr>"

definition demo_chromatin :: "(string \<times> string) list" where
  "demo_chromatin =
     [(''bedfile'', ''r.bed''), (''fastafile'', ''r.fasta''), (''genefile'', ''g.txt''),
      (''xreffile'', ''x.txt''), (''windowsize'', ''2000'')]"

definition demo_motif :: "(string \<times> string) list" where
  "demo_motif =
     [(''tamo_file'', ''m.tamo''), (''genome'', ''hg19''), (''numthreads'', ''4''),
      (''doNetwork'', ''False''), (''tfDelimiter'', ''.'')]"

definition demo_expression :: "(string \<times> string) list" where
  "demo_expression =
     [(''expressionFile'', ''e.txt''), (''pvalThresh'', ''0.01''), (''qvalThresh'', [])]"

definition demo_config :: config where
  "demo_config =
     [(''chromatinData'', demo_chromatin), (''motifData'', demo_motif),
      (''expressionData'', demo_expression)]"

definition demo_world :: world where
  "demo_world = \<lparr>files = {''m.tamo'', ''r.fasta'', ''e.txt''}, calls = [], out = []\<rparr>"

text \<open>The sample configuration with \<^verbatim>\<open>windowsize=\<close> left blank.\<close>

definition blank_window_config :: config where
  "blank_window_config =
     [(''chromatinData'',
       [(''bedfile'', ''r.bed''), (''fastafile'', ''r.fasta''), (''genefile'', ''g.txt''),
        (''xreffile'', ''x.txt''), (''windowsize'', [])]),
      (''motifData'', demo_motif), (''expressionData'', demo_expression)]"

text \<open>
  Variants of the sample configuration: \<^verbatim>\<open>tamo_file=\<close> left blank; no
  \<^verbatim>\<open>xreffile\<close> line; \<^verbatim>\<open>doNetwork=True\<close>; no \<^verbatim>\<open>expressionFile\<close> line.
\<close>

definition blank_tamo_config :: config where
  "blank_tamo_config =
     [(''chromatinData'', demo_chromatin),
      (''motifData'',
       [(''tamo_file'', []), (''genome'', ''hg19''), (''numthreads'', ''4''),
        (''doNetwork'', ''False''), (''tfDelimiter'', ''.'')]),
      (''expressionData'', demo_expression)]"

definition no_xref_config :: config where
  "no_xref_config =
     [(''chromatinData'',
       [(''bedfile'', ''r.bed''), (''fastafile'', ''r.fasta''), (''genefile'', ''g.txt''),
        (''windowsize'', ''2000'')]),
      (''motifData'', demo_motif), (''expressionData'', demo_expression)]"

definition network_config :: config where
  "network_config =
     [(''chromatinData'', demo_chromatin),
      (''motifData'',
       [(''tamo_file'', ''m.tamo''), (''genome'', ''hg19''), (''numthreads'', ''4''),
        (''doNetwork'', ''True''), (''tfDelimiter'', ''.'')]),
      (''expressionData'', demo_expression)]"

definition no_expression_config :: config where
  "no_expression_config =
     [(''chromatinData'', demo_chromatin), (''motifData'', demo_motif),
      (''expressionData'', [(''pvalThresh'', ''0.01''), (''qvalThresh'', [])])]"

text \<open>
  Worlds: one where none of the input files is there, and one where the inputs, the output
  directory and the four files the steps write are all there.
\<close>

definition bare_world :: world where
  "bare_world = \<lparr>files = {}, calls = [], out = []\<rparr>"

definition cached_world :: world where
  "cached_world =
     \<lparr>files = {''m.tamo'', ''r.fasta'', ''e.txt'', ''reventsWithin2000'',
         ''reventsWithin2000/events_to_genes.xls'',
         ''reventsWithin2000/events_to_genes_with_motifs.txt'',
         ''reventsWithin2000/events_to_genes_with_motifs.pkl'',
         ''reventsWithin2000/events_to_genes_with_motifsregression_results.xls''},
      calls = [], out = []\<rparr>"

section \<open>Properties\<close>

lemmas path_defs =
  os_path_join_def os_path_basename_def os_path_splitext_def rfind_def
  events_outdir_def events_outfile_def motif_binding_out_name_def tfids_name_def
  source_names_name_def matfile_name_def pickle_name_def pklfile_name_def
  regression_outdir_def newfasta_name_def

lemmas stage_defs =
  mapGenesToRegions_def motifScanning_def createBindingMatrix_def getTfsFromRegression_def
  regression_cmd_def

lemmas driver_defs =
  main_def step1_def step2_def step3_def network_step_def step4_def with_value_def
  and_then_def stop_unless_zero_def get_window_def get_numthreads_def get_delim_def
  config_get_def nonblank_def

lemmas sample_defs =
  sys_ok_def sys_fail_def sys_scan_fails_def demo_opts_def demo_chromatin_def demo_motif_def
  demo_expression_def demo_config_def demo_world_def blank_window_config_def
  blank_tamo_config_def no_xref_config_def network_config_def no_expression_config_def
  bare_world_def cached_world_def

lemmas eval_defs =
  driver_defs stage_defs path_defs sample_defs os_path_exists_def Let_def

subsection \<open>The world under printing and commands\<close>

lemma print_fields [simp]:
  "files (print s w) = files w"
  "calls (print s w) = calls w"
  "out (print s w) = out w @ [s]"
  by (simp_all add: print_def)

lemma exists_print [simp]: "os_path_exists p (print s w) = os_path_exists p w"
  by (simp add: os_path_exists_def)

lemma os_system_eq:
  "os_system sys tag cmd w =
     (fst (sys cmd (files w)),
      w\<lparr>files := snd (sys cmd (files w)),
        calls := calls w @ [(tag, cmd, fst (sys cmd (files w)))]\<rparr>)"
  by (simp add: os_system_def split: prod.split)

subsection \<open>Threshold of the regression\<close>

text \<open>
  C3. When the result file of the regression is not there, \<open>getTfsFromRegression\<close> issues
  exactly one command. It ends in \<open>--thresh=p\<close> with no \<open>--use-qval\<close> when the p-value
  threshold \<open>p\<close> is given and not empty; otherwise in \<open>--use-qval --thresh=q\<close> when the
  q-value threshold \<open>q\<close> is given and not empty; otherwise in \<open>--thresh=0.05\<close> with no
  \<open>--use-qval\<close>.
\<close>

theorem regression_threshold_selection:
  assumes "\<not> os_path_exists (regression_outdir pickle_file) w"
  shows "calls (snd (getTfsFromRegression sys progdir pickle_file expressionfile pvalT qvalT w)) =
     (let base = ''python '' @ os_path_join progdir ''motif_regression.py'' @ '' --outdir=''
                   @ regression_outdir pickle_file @ '' '' @ pickle_file @ '' '' @ expressionfile;
          cmd = (if pvalT \<noteq> None \<and> pvalT \<noteq> Some [] then base @ '' --thresh='' @ the pvalT
                 else if qvalT \<noteq> None \<and> qvalT \<noteq> Some []
                      then base @ '' --use-qval'' @ '' --thresh='' @ the qvalT
                 else base @ '' --thresh='' @ ''0.05'')
      in calls w @ [(Regression, cmd, fst (sys cmd (files w)))])"
  using assms
  by (cases pvalT; cases qvalT)
     (simp_all add: getTfsFromRegression_def regression_cmd_def nonblank_def Let_def
        os_system_eq)

theorem regression_threshold_selection_witness:
  "\<not> os_path_exists (regression_outdir ''m.pkl'') demo_world \<and>
   calls (snd (getTfsFromRegression sys_ok ''bin'' ''m.pkl'' ''e.txt'' (Some []) (Some ''0.1'') demo_world)) =
     [(Regression,
       ''python bin/motif_regression.py --outdir=mregression_results.xls m.pkl e.txt --use-qval --thresh=0.1'',
       0)]"
proof -
  have h: "\<not> os_path_exists (regression_outdir ''m.pkl'') demo_world"
    by (simp add: os_path_exists_def regression_outdir_def demo_world_def)
  show ?thesis
    using h regression_threshold_selection [OF h, of sys_ok "''bin''" "''e.txt''" "Some []" "Some ''0.1''"]
    by (simp add: regression_outdir_def demo_world_def sys_ok_def os_path_join_def)
qed

subsection \<open>Values read from the configuration\<close>

text \<open>
  C7, as the claim states it, fails: a blank \<^verbatim>\<open>windowsize=\<close> resolves to the empty
  string, not to \<open>2000\<close>.
\<close>

theorem blank_window_is_kept_counterexample:
  "get_window blank_window_config = Inr [] \<and> get_window blank_window_config \<noteq> Inr ''2000''"
  by (simp add: get_window_def config_get_def blank_window_config_def)

text \<open>
  C7, amended. When the option is in the configuration, the resolved window size, the
  resolved thread count and the resolved delimiter each equal the configured value, the
  empty string of a blank option included.
\<close>

theorem configured_values_are_kept:
  "(map_of config ''chromatinData'' = Some cs \<and> map_of cs ''windowsize'' = Some v
      \<longrightarrow> get_window config = Inr v) \<and>
   (map_of config ''motifData'' = Some ms \<and> map_of ms ''numthreads'' = Some n
      \<longrightarrow> get_numthreads config = Inr n) \<and>
   (map_of config ''motifData'' = Some ms \<and> map_of ms ''tfDelimiter'' = Some d
      \<longrightarrow> get_delim config = Inr d)"
  by (simp add: get_window_def get_numthreads_def get_delim_def config_get_def)

theorem configured_values_are_kept_witness:
  "map_of demo_config ''chromatinData'' = Some demo_chromatin \<and>
   map_of demo_chromatin ''windowsize'' = Some ''2000'' \<and>
   map_of demo_config ''motifData'' = Some demo_motif \<and>
   map_of demo_motif ''numthreads'' = Some ''4'' \<and>
   map_of demo_motif ''tfDelimiter'' = Some ''.'' \<and>
   get_window demo_config = Inr ''2000'' \<and>
   get_numthreads demo_config = Inr ''4'' \<and>
   get_delim demo_config = Inr ''.''"
  using configured_values_are_kept
    [of demo_config demo_chromatin "''2000''" demo_motif "''4''" "''.''"]
  by (simp add: demo_config_def demo_chromatin_def demo_motif_def)

subsection \<open>The number of arguments\<close>

text \<open>
  C8, as the claim states it, fails: with no positional argument the driver leaves with
  status 0.
\<close>

theorem no_argument_exit_status_counterexample:
  "exit_status (fst (main sys_ok ''bin'' demo_opts [] demo_config demo_world)) = 0"
  by (simp add: main_def exit_status_def)

text \<open>
  C8, amended. When the number of positional arguments is not one, the driver prints the
  line \<open>Need a configuration file to provide experiment-level details\<close> and leaves
  through \<^verbatim>\<open>sys.exit()\<close>, that is with status 0, whatever the configuration holds and
  with no command issued.
\<close>

theorem wrong_argument_count_exits:
  assumes "length args \<noteq> 1"
  shows "main sys progdir opts args config w =
           (Inl SystemExit,
            print ''Need a configuration file to provide experiment-level details'' w) \<and>
         exit_status (fst (main sys progdir opts args config w)) = 0 \<and>
         calls (snd (main sys progdir opts args config w)) = calls w"
  using assms by (simp add: main_def exit_status_def)

theorem wrong_argument_count_exits_witness:
  "length [''a.cfg'', ''b.cfg''] \<noteq> 1 \<and>
   fst (main sys_fail ''bin'' demo_opts [''a.cfg'', ''b.cfg''] demo_config demo_world) = Inl SystemExit \<and>
   calls (snd (main sys_fail ''bin'' demo_opts [''a.cfg'', ''b.cfg''] demo_config demo_world)) = []"
proof -
  have h: "length [''a.cfg'', ''b.cfg''] \<noteq> 1" by simp
  show ?thesis
    using wrong_argument_count_exits [OF h, of sys_fail "''bin''" demo_opts demo_config demo_world]
    by (simp add: demo_world_def)
qed

subsection \<open>Names by substitution\<close>

lemma re_sub_skips_stem:
  "no_match_in pat stem s \<Longrightarrow> re_sub pat repl (stem @ s) = stem @ re_sub pat repl s"
  by (induction stem) simp_all

lemma re_sub_at_match:
  "pat \<noteq> [] \<Longrightarrow> re_match pat s \<Longrightarrow>
     re_sub pat repl s = repl @ re_sub pat repl (drop (length pat) s)"
  by (cases s; cases pat) simp_all

text \<open>
  C10, as the claim states it, fails: the substitution does not stop at the first match.
  For \<open>Xpkl/m.pkl\<close> both the earlier occurrence and the final extension are rewritten.
\<close>

theorem substitution_beyond_first_match_counterexample:
  "regression_outdir ''Xpkl/m.pkl'' = ''regression_results.xls/mregression_results.xls'' \<and>
   regression_outdir ''Xpkl/m.pkl'' \<noteq> re_sub_first ''.pkl'' ''regression_results.xls'' ''Xpkl/m.pkl''"
  by (simp add: regression_outdir_def)

lemma re_match_itself: "re_match lit (lit @ rest)"
  by (induction lit) simp_all

lemma re_sub_every_match:
  "every_match_replaced lit repl (re_sub (CHR ''.'' # lit) repl) c rest stem s"
  unfolding every_match_replaced_def
  by (simp add: re_match_itself re_sub_skips_stem)

lemma motifScanning_name:
  "snd (fst (motifScanning sys progdir t f n g cg w)) = motif_binding_out_name f cg"
  by (simp add: motifScanning_def Let_def os_system_eq)

lemma createBindingMatrix_name:
  "snd (fst (createBindingMatrix sys progdir mbo outfile nf t u w)) = pklfile_name mbo"
  by (simp add: createBindingMatrix_def Let_def os_system_eq)

lemma getTfsFromRegression_name:
  "snd (fst (getTfsFromRegression sys progdir pk e pv qv w)) = regression_outdir pk"
  by (simp add: getTfsFromRegression_def Let_def os_system_eq)

lemma createBindingMatrix_command:
  assumes "\<not> os_path_exists (pklfile_name mbo) w"
  shows "calls (snd (createBindingMatrix sys progdir mbo outfile nf t u w)) =
     (let tfs = (if os_path_exists (source_names_name (os_path_basename t)) w
                 then tfids_name u t @ '','' @ source_names_name (os_path_basename t)
                 else tfids_name u t);
          cmd = ''python '' @ os_path_join progdir ''get_window_binding_matrix.py''
             @ '' '' @ mbo @ '' '' @ outfile @ '' '' @ '' '' @ nf
             @ '' --distance-to-gene='' @ [CHR 0x27, CHR 0x27] @ '' --motif-id-list='' @ tfs
             @ '' --outfile='' @ matfile_name mbo
      in calls w @ [(BindingMatrixConstruction, cmd, fst (sys cmd (files w)))])"
  using assms by (simp add: createBindingMatrix_def Let_def os_system_eq)

lemma step3_hands_newfasta:
  assumes "outfile \<noteq> []" and "bo \<noteq> []"
  shows "calls (snd (step3 sys progdir keeprunning outfile (Some t) (Some bo) w)) =
         calls (snd (createBindingMatrix sys progdir bo outfile (newfasta_name outfile) t False w))"
proof -
  obtain res pk w1 where
    m: "createBindingMatrix sys progdir bo outfile (newfasta_name outfile) t False w = ((res, pk), w1)"
    by (metis surj_pair)
  with assms show ?thesis
    by (simp add: step3_def and_then_def stop_unless_zero_def)
qed

text \<open>
  C10, amended. Every name the driver derives from another one is derived by a
  substitution that replaces every match of the pattern, met from left to right, the dot
  matching any character but the newline; it is not a replacement of the first match only,
  nor of the trailing extension. This holds of the file of the motif scan (from the fasta
  file when no gene file is given, from the gene file otherwise), of the two lists of
  identifiers and the file of source names, of the matrix file, of its pickle, of the
  fasta file handed to the matrix step and of the file of the regression results; the
  motif scan, the matrix step and the regression return the names so derived, and the
  command of the matrix step is made of them. For the
  regression: any four characters \<open>c\<close>, \<open>p\<close>, \<open>k\<close>, \<open>l\<close> at the head of the path are
  replaced by \<open>regression_results.xls\<close> and the rest of the path is rewritten in the same
  way; a path with no match before its final \<open>.pkl\<close> maps to its stem followed, with no
  separator, by \<open>regression_results.xls\<close> (\<open>m.pkl\<close> to \<open>mregression_results.xls\<close>);
  and in \<open>Xpkl/m.pkl\<close> the earlier occurrence is rewritten as well as the extension.
\<close>

theorem substitution_replaces_every_match:
  "every_match_replaced ''fasta'' ''_with_motifs.txt''
     (\<lambda>fastafile. motif_binding_out_name fastafile []) c rest stem s \<and>
   every_match_replaced ''xls'' ''_with_motifs.txt''
     (\<lambda>closest_gene_file.
        if closest_gene_file = [] then [] else motif_binding_out_name fastafile closest_gene_file)
     c rest stem s \<and>
   every_match_replaced ''tamo'' ''_up_tfids.txt'' (tfids_name True) c rest stem s \<and>
   every_match_replaced ''tamo'' ''_tfids.txt'' (tfids_name False) c rest stem s \<and>
   every_match_replaced ''tamo'' ''_source_names.txt'' source_names_name c rest stem s \<and>
   every_match_replaced ''txt'' ''.tgm'' matfile_name c rest stem s \<and>
   every_match_replaced ''tgm'' ''.pkl'' pickle_name c rest stem s \<and>
   pklfile_name motif_binding_out = pickle_name (matfile_name motif_binding_out) \<and>
   every_match_replaced ''xls'' ''.fsa'' newfasta_name c rest stem s \<and>
   every_match_replaced ''pkl'' ''regression_results.xls'' regression_outdir c rest stem s \<and>
   snd (fst (motifScanning sys progdir tamo_file fastafile numthreads genome closest_gene_file w)) =
     motif_binding_out_name fastafile closest_gene_file \<and>
   snd (fst (createBindingMatrix sys progdir motif_binding_out outfile newfasta tamo_file
               use_uniprot w)) =
     pklfile_name motif_binding_out \<and>
   snd (fst (getTfsFromRegression sys progdir pickle_file expressionfile pvalT qvalT w)) =
     regression_outdir pickle_file \<and>
   (outfile \<noteq> [] \<and> motif_binding_out \<noteq> [] \<longrightarrow>
      calls (snd (step3 sys progdir keeprunning outfile (Some tamo_file) (Some motif_binding_out) w)) =
      calls (snd (createBindingMatrix sys progdir motif_binding_out outfile
                    (newfasta_name outfile) tamo_file False w))) \<and>
   (\<not> os_path_exists (pklfile_name motif_binding_out) w \<longrightarrow>
      calls (snd (createBindingMatrix sys progdir motif_binding_out outfile newfasta tamo_file
                    use_uniprot w)) =
      (let tfs = (if os_path_exists (source_names_name (os_path_basename tamo_file)) w
                  then tfids_name use_uniprot tamo_file @ '',''
                         @ source_names_name (os_path_basename tamo_file)
                  else tfids_name use_uniprot tamo_file);
           cmd = ''python '' @ os_path_join progdir ''get_window_binding_matrix.py''
              @ '' '' @ motif_binding_out @ '' '' @ outfile @ '' '' @ '' '' @ newfasta
              @ '' --distance-to-gene='' @ [CHR 0x27, CHR 0x27] @ '' --motif-id-list='' @ tfs
              @ '' --outfile='' @ matfile_name motif_binding_out
       in calls w @ [(BindingMatrixConstruction, cmd, fst (sys cmd (files w)))])) \<and>
   (c \<noteq> CHR 0x0A \<longrightarrow>
      regression_outdir (c # ''pkl'' @ rest) = ''regression_results.xls'' @ regression_outdir rest) \<and>
   (no_match_in ''.pkl'' stem ''.pkl'' \<longrightarrow>
      regression_outdir (stem @ ''.pkl'') = stem @ ''regression_results.xls'') \<and>
   regression_outdir ''m.pkl'' = ''mregression_results.xls'' \<and>
   regression_outdir ''Xpkl/m.pkl'' = ''regression_results.xls/mregression_results.xls''"
proof -
  have fasta: "(\<lambda>fastafile. motif_binding_out_name fastafile []) =
      re_sub ''.fasta'' ''_with_motifs.txt''"
    by (rule ext) (simp add: motif_binding_out_name_def)
  have xls: "(\<lambda>closest_gene_file.
        if closest_gene_file = [] then [] else motif_binding_out_name fastafile closest_gene_file) =
      re_sub ''.xls'' ''_with_motifs.txt''"
    by (rule ext) (simp add: motif_binding_out_name_def)
  have up: "tfids_name True = re_sub ''.tamo'' ''_up_tfids.txt''"
    and plain: "tfids_name False = re_sub ''.tamo'' ''_tfids.txt''"
    and src: "source_names_name = re_sub ''.tamo'' ''_source_names.txt''"
    and mat: "matfile_name = re_sub ''.txt'' ''.tgm''"
    and pic: "pickle_name = re_sub ''.tgm'' ''.pkl''"
    and fsa: "newfasta_name = re_sub ''.xls'' ''.fsa''"
    and reg: "regression_outdir = re_sub ''.pkl'' ''regression_results.xls''"
    by (rule ext, simp add: tfids_name_def source_names_name_def matfile_name_def
          pickle_name_def newfasta_name_def regression_outdir_def)+
  have tail: "regression_outdir (stem @ ''.pkl'') = stem @ ''regression_results.xls''"
    if "no_match_in ''.pkl'' stem ''.pkl''"
    using re_sub_skips_stem [OF that, of "''regression_results.xls''"]
    by (simp add: regression_outdir_def)
  have head: "regression_outdir (c # ''pkl'' @ rest) =
      ''regression_results.xls'' @ regression_outdir rest" if "c \<noteq> CHR 0x0A"
    using that by (simp add: regression_outdir_def)
  have ex: "regression_outdir ''m.pkl'' = ''mregression_results.xls''"
    "regression_outdir ''Xpkl/m.pkl'' = ''regression_results.xls/mregression_results.xls''"
    by (simp_all add: regression_outdir_def)
  have hands: "calls (snd (step3 sys progdir keeprunning outfile (Some tamo_file)
                             (Some motif_binding_out) w)) =
      calls (snd (createBindingMatrix sys progdir motif_binding_out outfile
                    (newfasta_name outfile) tamo_file False w))"
    if "outfile \<noteq> [] \<and> motif_binding_out \<noteq> []"
    using that by (simp add: step3_hands_newfasta)
  have every:
    "every_match_replaced ''fasta'' ''_with_motifs.txt''
       (\<lambda>fastafile. motif_binding_out_name fastafile []) c rest stem s"
    "every_match_replaced ''xls'' ''_with_motifs.txt''
       (\<lambda>closest_gene_file.
          if closest_gene_file = [] then [] else motif_binding_out_name fastafile closest_gene_file)
       c rest stem s"
    "every_match_replaced ''tamo'' ''_up_tfids.txt'' (tfids_name True) c rest stem s"
    "every_match_replaced ''tamo'' ''_tfids.txt'' (tfids_name False) c rest stem s"
    "every_match_replaced ''tamo'' ''_source_names.txt'' source_names_name c rest stem s"
    "every_match_replaced ''txt'' ''.tgm'' matfile_name c rest stem s"
    "every_match_replaced ''tgm'' ''.pkl'' pickle_name c rest stem s"
    "every_match_replaced ''xls'' ''.fsa'' newfasta_name c rest stem s"
    "every_match_replaced ''pkl'' ''regression_results.xls'' regression_outdir c rest stem s"
    unfolding fasta xls up plain src mat pic fsa reg by (rule re_sub_every_match)+
  show ?thesis
    by (intro conjI impI every motifScanning_name createBindingMatrix_name
          getTfsFromRegression_name tail head ex hands createBindingMatrix_command)
       (simp_all add: pklfile_name_def)
qed

theorem substitution_replaces_every_match_witness:
  "CHR ''X'' \<noteq> CHR 0x0A \<and>
   regression_outdir ''Xpkl/m.pkl'' = ''regression_results.xls'' @ regression_outdir ''/m.pkl'' \<and>
   no_match_in ''.pkl'' ''out/m'' ''.pkl'' \<and>
   regression_outdir ''out/m.pkl'' = ''out/mregression_results.xls'' \<and>
   no_match_in ''.txt'' ''out/m'' ''.pkl'' \<and>
   matfile_name ''Xtxt/m.pkl'' = ''.tgm'' @ matfile_name ''/m.pkl'' \<and>
   matfile_name ''out/m.pkl'' = ''out/m'' @ matfile_name ''.pkl'' \<and>
   newfasta_name ''Xxls/m.pkl'' = ''.fsa'' @ newfasta_name ''/m.pkl'' \<and>
   motif_binding_out_name ''r.fasta'' ''Xxls/m.pkl'' =
     ''_with_motifs.txt'' @ motif_binding_out_name ''r.fasta'' ''/m.pkl'' \<and>
   \<not> os_path_exists (pklfile_name ''m.txt'') demo_world \<and>
   calls (snd (createBindingMatrix sys_ok ''bin'' ''m.txt'' ''m.xls'' ''m.fsa'' ''m.tamo'' False
                 demo_world)) =
     [(BindingMatrixConstruction,
       ''python bin/get_window_binding_matrix.py m.txt m.xls  m.fsa --distance-to-gene=''
         @ [CHR 0x27, CHR 0x27] @ '' --motif-id-list=m_tfids.txt --outfile=m.tgm'',
       0)]"
  using substitution_replaces_every_match
    [where c = "CHR ''X''" and rest = "''/m.pkl''" and stem = "''out/m''" and s = "''.pkl''"
       and fastafile = "''r.fasta''" and motif_binding_out = "''m.txt''" and sys = sys_ok
       and progdir = "''bin''" and tamo_file = "''m.tamo''" and numthreads = "''4''"
       and genome = "''hg19''" and closest_gene_file = "''m.xls''" and w = demo_world
       and outfile = "''m.xls''" and newfasta = "''m.fsa''" and use_uniprot = False
       and pickle_file = "''m.pkl''" and expressionfile = "''e.txt''" and pvalT = None
       and qvalT = None and keeprunning = 0]
  by (simp add: every_match_replaced_def path_defs os_path_exists_def demo_world_def sys_ok_def)

subsection \<open>Leaving at the first failed step\<close>

lemma mapGenesToRegions_trace:
  "mapGenesToRegions sys progdir g xref b window od w = (r, w1) \<Longrightarrow>
     (case r of Inl e \<Rightarrow> stage_trace GeneRegionMapping w 0 w1
      | Inr (res, outfile) \<Rightarrow> stage_trace GeneRegionMapping w res w1)"
  unfolding mapGenesToRegions_def Let_def os_system_eq stage_trace_def
  by (auto simp: failed_call_def required_def split: option.splits if_splits)

lemma motifScanning_trace:
  "motifScanning sys progdir t f n g cg w = ((res, bo), w1) \<Longrightarrow> stage_trace MotifScanning w res w1"
  unfolding motifScanning_def Let_def os_system_eq stage_trace_def
  by (auto simp: failed_call_def required_def split: if_splits)

lemma createBindingMatrix_trace:
  "createBindingMatrix sys progdir bo outfile nf t u w = ((res, pk), w1) \<Longrightarrow>
     stage_trace BindingMatrixConstruction w res w1"
  unfolding createBindingMatrix_def Let_def os_system_eq stage_trace_def
  by (auto simp: failed_call_def required_def split: if_splits)

lemma getTfsFromRegression_trace:
  "getTfsFromRegression sys progdir pk e pv qv w = ((res, od), w1) \<Longrightarrow>
     stage_trace Regression w 0 w1"
  unfolding getTfsFromRegression_def Let_def os_system_eq stage_trace_def
  by (auto simp: failed_call_def required_def split: if_splits)

lemma stops_unchanged: "calls w1 = calls w \<Longrightarrow> stops_at_failure w (r, w1)"
  by (simp add: stops_at_failure_def)

lemma stops_clean: "stage_trace tag w 0 w1 \<Longrightarrow> stops_at_failure w (r, w1)"
  by (simp add: stops_at_failure_def stage_trace_def Let_def)

lemma stop_after_stage:
  assumes "stage_trace tag w res w1" and "required tag" and "msg = abort_message tag"
  shows "stops_at_failure w (stop_unless_zero res msg v w1)"
  using assms
  by (cases "res = 0")
     (auto simp: stops_at_failure_def stage_trace_def stop_unless_zero_def Let_def failed_call_def)

lemma stop_stale:
  "calls w1 = calls w \<Longrightarrow> stops_at_failure w (stop_unless_zero keeprunning msg v w1)"
  by (simp add: stops_at_failure_def stop_unless_zero_def)

lemma stops_with_value:
  "(\<And>v. r = Inr v \<Longrightarrow> stops_at_failure w (k v w)) \<Longrightarrow> stops_at_failure w (with_value r k w)"
  by (cases r) (simp_all add: with_value_def stops_at_failure_def)

lemma step1_stops: "stops_at_failure w (step1 sys progdir opts config w)"
  unfolding step1_def
proof (intro stops_with_value)
  fix genefile bedfile xref window
  let ?msg = "''Error running gene mapping step, check your files and try again''"
  show "stops_at_failure w
      (case (genefile, bedfile) of
         (Some g, Some b) \<Rightarrow>
           and_then (mapGenesToRegions sys progdir g xref b window (opt_outdir opts) w)
             (\<lambda>(keeprunning, outfile). stop_unless_zero keeprunning ?msg (keeprunning, outfile))
       | _ \<Rightarrow>
           (Inl SystemExit,
            print ''Missing genefile,bedfile or xref file, cannot map genes to regions.'' w))"
  proof (cases genefile; cases bedfile)
    fix g b
    assume gb: "genefile = Some g" "bedfile = Some b"
    obtain r w1 where m: "mapGenesToRegions sys progdir g xref b window (opt_outdir opts) w = (r, w1)"
      by (cases "mapGenesToRegions sys progdir g xref b window (opt_outdir opts) w")
    have "stops_at_failure w (and_then (r, w1)
             (\<lambda>(keeprunning, outfile). stop_unless_zero keeprunning ?msg (keeprunning, outfile)))"
    proof (cases r)
      case (Inl e)
      with mapGenesToRegions_trace [OF m] show ?thesis
        by (simp add: and_then_def stops_clean)
    next
      case (Inr p)
      obtain res outfile where p: "p = (res, outfile)" by (cases p)
      with Inr mapGenesToRegions_trace [OF m] have "stage_trace GeneRegionMapping w res w1" by simp
      then have "stops_at_failure w (stop_unless_zero res ?msg (res, outfile) w1)"
        by (rule stop_after_stage) (simp_all add: required_def abort_message_def)
      with Inr p show ?thesis by (simp add: and_then_def)
    qed
    with gb m show ?thesis by simp
  qed (simp_all add: stops_unchanged)
qed


lemma step2_gated_stops:
  "stops_at_failure w
     (let ((keeprunning, binding_out), w1) =
            (if c then motifScanning sys progdir t f n g outfile w
             else ((keeprunning, []), print m w))
      in stop_unless_zero keeprunning
           ''Error running motif-scanning step, check your files and try again''
           (keeprunning, tamofile, genome, Some binding_out) w1)"
proof (cases c)
  case True
  obtain res bo w1 where m: "motifScanning sys progdir t f n g outfile w = ((res, bo), w1)"
    by (metis surj_pair)
  from motifScanning_trace [OF m] have "stops_at_failure w
     (stop_unless_zero res ''Error running motif-scanning step, check your files and try again''
        (res, tamofile, genome, Some bo) w1)"
    by (rule stop_after_stage) (simp_all add: required_def abort_message_def)
  with True m show ?thesis by simp
next
  case False
  then show ?thesis by (simp add: stop_stale)
qed

lemma step2_stops: "stops_at_failure w (step2 sys progdir config keeprunning outfile w)"
  unfolding step2_def
  apply (intro stops_with_value)
  subgoal for tamofile genome numthreads fastafile
    by (cases "nonblank tamofile"; cases genome; cases "nonblank fastafile";
        simp only: option.case prod.case; (rule stops_unchanged step2_gated_stops)?; simp?)
  done

lemma step3_stops:
  "stops_at_failure w (step3 sys progdir keeprunning outfile tamofile binding_out w)"
proof -
  let ?msg = "''Error running matrix creation step, check your files and try again''"
  let ?k = "\<lambda>(keeprunning, binding_matrix).
              stop_unless_zero keeprunning ?msg (keeprunning, binding_matrix :: string)"
  have stale: "stops_at_failure w (and_then (Inr (keeprunning, []), w) ?k)"
    by (simp add: and_then_def stop_stale)
  have raised: "stops_at_failure w (and_then (Inl e, w) ?k)" for e
    by (simp add: and_then_def stops_at_failure_def)
  have built: "stops_at_failure w
      (and_then (case createBindingMatrix sys progdir bo outfile nf t False w of
                   (r, w1) \<Rightarrow> (Inr r, w1)) ?k)" for bo nf t
  proof -
    obtain res pk w1 where m: "createBindingMatrix sys progdir bo outfile nf t False w = ((res, pk), w1)"
      by (metis surj_pair)
    from createBindingMatrix_trace [OF m]
    have "stops_at_failure w (stop_unless_zero res ?msg (res, pk) w1)"
      by (rule stop_after_stage) (simp_all add: required_def abort_message_def)
    with m show ?thesis by (simp add: and_then_def)
  qed
  show ?thesis
    unfolding step3_def Let_def
    by (cases binding_out; cases tamofile;
        simp only: option.case stale raised built split: if_split; simp)
qed


lemma network_step_stops:
  "stops_at_failure w (network_step sys progdir opts config genome binding_matrix w)"
  unfolding network_step_def
  apply (intro stops_with_value)
  subgoal for do_network delim
    by (cases genome)
       (simp_all add: stops_at_failure_def os_system_eq Let_def failed_call_def required_def)
  done

lemma step4_stops: "stops_at_failure w (step4 sys progdir config keeprunning binding_matrix w)"
  unfolding step4_def
proof (intro stops_with_value)
  fix expr pvt qvt
  let ?msg = "''Error running regression step, check your files and try again''"
  let ?goal = "stops_at_failure w
      (let ((keeprunning, tfs), w1) =
              (case nonblank expr of
                 Some e \<Rightarrow>
                   if binding_matrix \<noteq> [] \<and> os_path_exists binding_matrix w \<and> os_path_exists e w
                   then (let ((res, outdir), w1) =
                               getTfsFromRegression sys progdir binding_matrix e pvt qvt w
                         in ((res, Some outdir), w1))
                   else ((keeprunning, None),
                         print ''Cannot perform regression because binding matrix or expression datasets are missing'' w)
               | None \<Rightarrow> ((keeprunning, None), w))
        in stop_unless_zero keeprunning ?msg (keeprunning, tfs) w1)"
  show ?goal
  proof (cases "nonblank expr")
    case None
    then show ?thesis by (simp add: stop_stale)
  next
    case (Some e)
    obtain res od w1 where m: "getTfsFromRegression sys progdir binding_matrix e pvt qvt w = ((res, od), w1)"
      by (metis surj_pair)
    from getTfsFromRegression_trace [OF m] have "stops_at_failure w
       (stop_unless_zero res ?msg (res, Some od) w1)"
      by (cases "res = 0")
         (auto simp: stops_at_failure_def stage_trace_def stop_unless_zero_def Let_def)
    with Some m show ?thesis by (simp add: stop_stale)
  qed
qed

lemma stops_at_failure_and_then:
  assumes "stops_at_failure w m"
      and "\<And>v w1. m = (Inr v, w1) \<Longrightarrow> stops_at_failure w1 (k v w1)"
  shows "stops_at_failure w (and_then m k)"
proof (cases m)
  case (Pair r w1)
  show ?thesis
  proof (cases r)
    case (Inl e)
    with Pair assms(1) show ?thesis by (simp add: and_then_def stops_at_failure_def)
  next
    case (Inr v)
    with Pair have m: "m = (Inr v, w1)" by simp
    define cs1 where "cs1 = drop (length (calls w)) (calls w1)"
    define cs2 where "cs2 = drop (length (calls w1)) (calls (snd (k v w1)))"
    from assms(1) m have c1: "calls w1 = calls w @ cs1"
      and ok1: "list_all (\<lambda>c. \<not> failed_call c) cs1"
      unfolding stops_at_failure_def Let_def cs1_def
      by (simp_all, metis append_take_drop_id)
    from assms(2) [OF m] have c2: "calls (snd (k v w1)) = calls w1 @ cs2"
      and ok2: "list_all (\<lambda>c. \<not> failed_call c) cs2 \<or>
         cs2 \<noteq> [] \<and> list_all (\<lambda>c. \<not> failed_call c) (butlast cs2) \<and> failed_call (last cs2) \<and>
         fst (k v w1) = Inl SystemExit \<and> out (snd (k v w1)) \<noteq> [] \<and>
         last (out (snd (k v w1))) = abort_message (fst (last cs2))"
      unfolding stops_at_failure_def Let_def cs2_def
      by (simp_all, metis append_take_drop_id)
    have e: "and_then m k = k v w1" using m by (simp add: and_then_def)
    have c: "calls (snd (k v w1)) = calls w @ (cs1 @ cs2)" using c1 c2 by simp
    from ok1 ok2 have "list_all (\<lambda>c. \<not> failed_call c) (cs1 @ cs2) \<or>
         cs1 @ cs2 \<noteq> [] \<and> list_all (\<lambda>c. \<not> failed_call c) (butlast (cs1 @ cs2)) \<and>
         failed_call (last (cs1 @ cs2)) \<and>
         fst (k v w1) = Inl SystemExit \<and> out (snd (k v w1)) \<noteq> [] \<and>
         last (out (snd (k v w1))) = abort_message (fst (last (cs1 @ cs2)))"
      by (auto simp: butlast_append)
    then show ?thesis
      unfolding e stops_at_failure_def Let_def c by simp
  qed
qed

lemma main_stops: "stops_at_failure w (main sys progdir opts args config w)"
proof (cases "length args = 1")
  case False
  then show ?thesis by (simp add: main_def stops_at_failure_def)
next
  case True
  then show ?thesis
    unfolding main_def
    apply (simp only: simp_thms if_False)
    apply (rule stops_at_failure_and_then, rule step1_stops, (simp only: prod.case split_paired_all)?)
    apply (rule stops_at_failure_and_then, rule step2_stops, (simp only: prod.case split_paired_all)?)
    apply (rule stops_at_failure_and_then, rule step3_stops, (simp only: prod.case split_paired_all)?)
    apply (rule stops_at_failure_and_then, rule network_step_stops, (simp only: prod.case split_paired_all)?)
    apply (rule stops_at_failure_and_then, rule step4_stops, (simp only: prod.case split_paired_all)?)
    apply (simp add: stops_at_failure_def)
    done
qed

text \<open>
  C2. Whatever the configuration, the files and the behaviour of the commands: if, among
  the commands a run issues, one belongs to the gene-region mapping, the motif scanning or
  the construction of the binding matrix and returns a status other than 0, then it is the
  last command of the run, the driver leaves through \<^verbatim>\<open>sys.exit()\<close>, and the last
  line it prints names that step (for the gene-region mapping:
  \<open>Error running gene mapping step, check your files and try again\<close>).
\<close>

theorem required_stage_failure_stops_run:
  assumes "calls (snd (main sys progdir opts args config w)) = calls w @ cs"
      and "i < length cs"
      and "failed_call (cs ! i)"
  shows "Suc i = length cs \<and>
         fst (main sys progdir opts args config w) = Inl SystemExit \<and>
         last (out (snd (main sys progdir opts args config w))) = abort_message (fst (cs ! i))"
proof -
  let ?rw = "main sys progdir opts args config w"
  from main_stops [of w sys progdir opts args config] assms(1)
  have ok: "list_all (\<lambda>c. \<not> failed_call c) cs \<or>
         cs \<noteq> [] \<and> list_all (\<lambda>c. \<not> failed_call c) (butlast cs) \<and> failed_call (last cs) \<and>
         fst ?rw = Inl SystemExit \<and> out (snd ?rw) \<noteq> [] \<and>
         last (out (snd ?rw)) = abort_message (fst (last cs))"
    by (simp add: stops_at_failure_def Let_def)
  from assms(2,3) have "\<not> list_all (\<lambda>c. \<not> failed_call c) cs"
    by (auto simp: list_all_iff)
  with ok have ne: "cs \<noteq> []" and bl: "list_all (\<lambda>c. \<not> failed_call c) (butlast cs)"
    and rest: "fst ?rw = Inl SystemExit" "last (out (snd ?rw)) = abort_message (fst (last cs))"
    by auto
  have "Suc i = length cs"
  proof (rule ccontr)
    assume "Suc i \<noteq> length cs"
    with assms(2) have "i < length (butlast cs)" by simp
    then have "butlast cs ! i \<in> set (butlast cs)" by (rule nth_mem)
    moreover have "butlast cs ! i = cs ! i" using \<open>i < length (butlast cs)\<close> by (simp add: nth_butlast)
    ultimately show False using bl assms(3) by (auto simp: list_all_iff)
  qed
  moreover from this ne have "last cs = cs ! i" by (metis diff_Suc_1 last_conv_nth)
  ultimately show ?thesis using rest by simp
qed

theorem required_stage_failure_stops_run_witness:
  "calls (snd (main sys_scan_fails ''bin'' demo_opts [''c.cfg''] demo_config demo_world)) =
     calls demo_world @
     [(MakeDir, ''mkdir reventsWithin2000'', 0),
      (GeneRegionMapping,
       ''python bin/map_peaks_to_known_genes.py --peaks-format=BED --utilpath=bin/../src/ --upstream-window=2000 --downstream-window=2000 --tss --map-output=reventsWithin2000/events_to_genes.xls --symbol-xref=x.txt g.txt r.bed'',
       0),
      (MotifScanning,
       ''python bin/motif_fsa_scores.py --motif=m.tamo --genome=hg19 --outfile=reventsWithin2000/events_to_genes_with_motifs.txt --genefile=reventsWithin2000/events_to_genes.xls --scale=10 --threads=4 r.fasta'',
       1)] \<and>
   fst (main sys_scan_fails ''bin'' demo_opts [''c.cfg''] demo_config demo_world) = Inl SystemExit \<and>
   last (out (snd (main sys_scan_fails ''bin'' demo_opts [''c.cfg''] demo_config demo_world))) =
     ''Error running motif-scanning step, check your files and try again''"
proof -
  let ?cs = "[(MakeDir, ''mkdir reventsWithin2000'', 0::int),
      (GeneRegionMapping,
       ''python bin/map_peaks_to_known_genes.py --peaks-format=BED --utilpath=bin/../src/ --upstream-window=2000 --downstream-window=2000 --tss --map-output=reventsWithin2000/events_to_genes.xls --symbol-xref=x.txt g.txt r.bed'',
       0),
      (MotifScanning,
       ''python bin/motif_fsa_scores.py --motif=m.tamo --genome=hg19 --outfile=reventsWithin2000/events_to_genes_with_motifs.txt --genefile=reventsWithin2000/events_to_genes.xls --scale=10 --threads=4 r.fasta'',
       1)]"
  have c: "calls (snd (main sys_scan_fails ''bin'' demo_opts [''c.cfg''] demo_config demo_world)) =
     calls demo_world @ ?cs"
    by (simp add: eval_defs os_system_eq)
  have i: "2 < length ?cs" by simp
  have f: "failed_call (?cs ! 2)" by (simp add: failed_call_def required_def)
  from required_stage_failure_stops_run [OF c i f] c show ?thesis
    by (simp add: abort_message_def)
qed

subsection \<open>Options that are not in the configuration\<close>

lemma config_get_absent: "absent config section option \<Longrightarrow> isl (config_get config section option)"
  by (auto simp: absent_def config_get_def split: option.splits)

lemma step1_missing:
  assumes "isl (config_get config ''chromatinData'' ''genefile'') \<or>
           isl (config_get config ''chromatinData'' ''bedfile'') \<or>
           isl (config_get config ''chromatinData'' ''xreffile'') \<or>
           isl (config_get config ''chromatinData'' ''windowsize'')"
  shows "\<exists>e. step1 sys progdir opts config w = (Inl e, w)"
  using assms
  by (auto simp: step1_def with_value_def get_window_def isl_def split: sum.splits)

text \<open>
  C4. When the gene annotation, the cross-reference, the bed file or the window size is not
  in the configuration, the run ends with an error and without a single command issued or
  file touched.
\<close>

theorem missing_chromatin_input_aborts:
  assumes "k \<in> {''genefile'', ''xreffile'', ''bedfile'', ''windowsize''}"
      and "absent config ''chromatinData'' k"
  shows "isl (fst (main sys progdir opts args config w)) \<and>
         calls (snd (main sys progdir opts args config w)) = calls w \<and>
         files (snd (main sys progdir opts args config w)) = files w"
proof (cases "length args = 1")
  case False
  then show ?thesis by (simp add: main_def)
next
  case True
  from assms have "isl (config_get config ''chromatinData'' k)"
    by (simp add: config_get_absent)
  with assms(1) obtain e where "step1 sys progdir opts config w = (Inl e, w)"
    using step1_missing [of config sys progdir opts w] by auto
  with True show ?thesis by (simp add: main_def and_then_def)
qed

theorem missing_chromatin_input_aborts_witness:
  "''xreffile'' \<in> {''genefile'', ''xreffile'', ''bedfile'', ''windowsize''} \<and>
   absent no_xref_config ''chromatinData'' ''xreffile'' \<and>
   fst (main sys_ok ''bin'' demo_opts [''c.cfg''] no_xref_config demo_world) =
     Inl (NoOptionError ''xreffile'' ''chromatinData'') \<and>
   calls (snd (main sys_ok ''bin'' demo_opts [''c.cfg''] no_xref_config demo_world)) = []"
proof -
  have k: "''xreffile'' \<in> {''genefile'', ''xreffile'', ''bedfile'', ''windowsize''}" by simp
  have a: "absent no_xref_config ''chromatinData'' ''xreffile''"
    by (simp add: absent_def no_xref_config_def)
  have "fst (main sys_ok ''bin'' demo_opts [''c.cfg''] no_xref_config demo_world) =
     Inl (NoOptionError ''xreffile'' ''chromatinData'')"
    by (simp add: eval_defs)
  with k a missing_chromatin_input_aborts [OF k a, of sys_ok "''bin''" demo_opts "[''c.cfg'']" demo_world]
  show ?thesis by (simp add: demo_world_def)
qed

subsection \<open>The motif scan that is not attempted\<close>

lemma mapGenesToRegions_outfile:
  "mapGenesToRegions sys progdir g xref b window od w = (Inr (res, outfile), w1) \<Longrightarrow>
     outfile = events_outfile b window od"
  by (auto simp: mapGenesToRegions_def events_outfile_def Let_def os_system_eq
      split: option.splits if_splits)

lemma step1_result:
  assumes "step1 sys progdir opts config w = (Inr (keeprunning, outfile), w1)"
  shows "keeprunning = 0 \<and> outfile \<noteq> []"
proof -
  from assms obtain g xref b window res where
    m: "mapGenesToRegions sys progdir g xref b window (opt_outdir opts) w = (Inr (res, outfile), w1)"
    and k: "res = 0" "keeprunning = res"
    by (auto simp: step1_def with_value_def and_then_def stop_unless_zero_def
        split: sum.splits option.splits prod.splits if_splits)
  from mapGenesToRegions_outfile [OF m] k show ?thesis by (simp add: events_outfile_def)
qed

lemma step2_gate_closed:
  assumes "config_get config ''motifData'' ''tamo_file'' = Inr tamofile"
      and "config_get config ''motifData'' ''genome'' = Inr genome"
      and "get_numthreads config = Inr numthreads"
      and "config_get config ''chromatinData'' ''fastafile'' = Inr fastafile"
      and "nonblank tamofile = None \<or> genome = None \<or> nonblank fastafile = None"
  shows "step2 sys progdir config keeprunning outfile w =
           (Inr (keeprunning, tamofile, genome, None), w)"
  using assms by (auto simp: step2_def with_value_def split: option.splits)

text \<open>
  C9. Let the run have come through the gene-region mapping, and let the configuration hold
  the four options read before the motif scan. If the motif library or the fasta file is
  blank (or the genome were \<^verbatim>\<open>None\<close>), the test of line 212 fails, \<open>binding_out\<close>
  stays unassigned, and reading it at line 226 ends the run with
  \<^verbatim>\<open>UnboundLocalError\<close>; nothing is printed or issued after the mapping.
\<close>

theorem unassigned_binding_out:
  assumes "step1 sys progdir opts config w = (Inr (keeprunning, outfile), w1)"
      and "config_get config ''motifData'' ''tamo_file'' = Inr tamofile"
      and "config_get config ''motifData'' ''genome'' = Inr genome"
      and "get_numthreads config = Inr numthreads"
      and "config_get config ''chromatinData'' ''fastafile'' = Inr fastafile"
      and "nonblank tamofile = None \<or> genome = None \<or> nonblank fastafile = None"
  shows "step2 sys progdir config keeprunning outfile w1 =
           (Inr (keeprunning, tamofile, genome, None), w1) \<and>
         step3 sys progdir keeprunning outfile tamofile None w1 =
           (Inl (UnboundLocalError ''binding_out''), w1) \<and>
         main sys progdir opts [cf] config w = (Inl (UnboundLocalError ''binding_out''), w1)"
proof -
  have s2: "step2 sys progdir config keeprunning outfile w1 =
           (Inr (keeprunning, tamofile, genome, None), w1)"
    using assms(2-6) by (rule step2_gate_closed)
  from step1_result [OF assms(1)] have "outfile \<noteq> []" by simp
  then have s3: "step3 sys progdir keeprunning outfile tamofile None w1 =
           (Inl (UnboundLocalError ''binding_out''), w1)"
    by (simp add: step3_def and_then_def)
  show ?thesis using assms(1) s2 s3 by (simp add: main_def and_then_def)
qed

theorem unassigned_binding_out_witness:
  "fst (step1 sys_ok ''bin'' demo_opts blank_tamo_config demo_world) =
     Inr (0, ''reventsWithin2000/events_to_genes.xls'') \<and>
   config_get blank_tamo_config ''motifData'' ''tamo_file'' = Inr (Some []) \<and>
   nonblank (Some []) = None \<and>
   fst (main sys_ok ''bin'' demo_opts [''c.cfg''] blank_tamo_config demo_world) =
     Inl (UnboundLocalError ''binding_out'')"
proof -
  obtain w1 where s1: "step1 sys_ok ''bin'' demo_opts blank_tamo_config demo_world =
      (Inr (0, ''reventsWithin2000/events_to_genes.xls''), w1)"
    by (simp add: eval_defs os_system_eq)
  have t: "config_get blank_tamo_config ''motifData'' ''tamo_file'' = Inr (Some [])"
    and g: "config_get blank_tamo_config ''motifData'' ''genome'' = Inr (Some ''hg19'')"
    and n: "get_numthreads blank_tamo_config = Inr ''4''"
    and f: "config_get blank_tamo_config ''chromatinData'' ''fastafile'' = Inr (Some ''r.fasta'')"
    by (simp_all add: driver_defs sample_defs)
  have b: "nonblank (Some []) = None \<or> Some ''hg19'' = None \<or> nonblank (Some ''r.fasta'') = None"
    by (simp add: nonblank_def)
  from unassigned_binding_out [OF s1 t g n f b, of "''c.cfg''"] s1 t show ?thesis
    by (simp add: nonblank_def)
qed

subsection \<open>The expression file that is not configured\<close>

text \<open>
  C6, the part the driver does not do: with no \<^verbatim>\<open>expressionFile\<close> line the run,
  having done its first three steps, ends with \<^verbatim>\<open>NoOptionError\<close> and status 1.
\<close>

theorem omitted_expression_key_raises:
  "fst (main sys_ok ''bin'' demo_opts [''c.cfg''] no_expression_config demo_world) =
     Inl (NoOptionError ''expressionFile'' ''expressionData'') \<and>
   exit_status (fst (main sys_ok ''bin'' demo_opts [''c.cfg''] no_expression_config demo_world)) = 1"
  by (simp add: eval_defs os_system_eq exit_status_def)

lemma missing_expression_file_skips:
  assumes "config_get config ''expressionData'' ''expressionFile'' = Inr (Some e)"
      and "config_get config ''expressionData'' ''pvalThresh'' = Inr pvt"
      and "config_get config ''expressionData'' ''qvalThresh'' = Inr qvt"
      and "e \<noteq> []" and "\<not> os_path_exists e w"
  shows "step4 sys progdir config 0 binding_matrix w =
           (Inr (0, None),
            print ''Cannot perform regression because binding matrix or expression datasets are missing'' w)"
  using assms by (simp add: step4_def with_value_def nonblank_def stop_unless_zero_def)

lemma blank_expression_file_skips:
  assumes "config_get config ''expressionData'' ''expressionFile'' = Inr (Some [])"
      and "config_get config ''expressionData'' ''pvalThresh'' = Inr pvt"
      and "config_get config ''expressionData'' ''qvalThresh'' = Inr qvt"
  shows "step4 sys progdir config 0 binding_matrix w = (Inr (0, None), w)"
  using assms by (simp add: step4_def with_value_def nonblank_def stop_unless_zero_def)

subsection \<open>Motif files that are not on disk\<close>

lemma config_get_not_exit: "config_get config section option = Inl e \<Longrightarrow> e \<noteq> SystemExit"
  by (auto simp: config_get_def split: option.splits)

lemma get_delim_not_exit: "get_delim config = Inl e \<Longrightarrow> e \<noteq> SystemExit"
  by (auto simp: get_delim_def split: sum.splits dest: config_get_not_exit)

lemma network_step_calls:
  "take (length (calls w)) (calls (snd (network_step sys progdir opts config genome bm w))) = calls w \<and>
   list_all (\<lambda>c. fst c = NetworkExport)
     (drop (length (calls w)) (calls (snd (network_step sys progdir opts config genome bm w)))) \<and>
   fst (network_step sys progdir opts config genome bm w) \<noteq> Inl SystemExit"
  by (cases "config_get config ''motifData'' ''doNetwork''"; cases "get_delim config"; cases genome)
     (auto simp: network_step_def with_value_def os_system_eq Let_def
        dest: config_get_not_exit get_delim_not_exit)

lemma step4_no_matrix:
  "calls (snd (step4 sys progdir config 0 [] w)) = calls w \<and>
   fst (step4 sys progdir config 0 [] w) \<noteq> Inl SystemExit"
  by (cases "config_get config ''expressionData'' ''expressionFile''";
      cases "config_get config ''expressionData'' ''pvalThresh''";
      cases "config_get config ''expressionData'' ''qvalThresh''")
     (auto simp: step4_def with_value_def stop_unless_zero_def nonblank_def
        split: option.split dest: config_get_not_exit)

text \<open>
  C5. Let the run have come through the gene-region mapping, and let the motif library, the
  genome and the fasta file be configured, the two file names not blank. If one of the two
  files is not on disk, the motif scan is not attempted: the driver prints a warning, goes on
  (it does not leave), and \<open>binding_out\<close> is the empty string; the construction of the
  binding matrix is then not attempted either, goes on as well, and \<open>binding_matrix\<close> is
  the empty string. In the rest of the run the only command that can still be issued is the
  network export, and the driver does not leave through \<^verbatim>\<open>sys.exit()\<close>.
\<close>

theorem missing_motif_files_skip:
  assumes "step1 sys progdir opts config w = (Inr (keeprunning, outfile), w1)"
      and "config_get config ''motifData'' ''tamo_file'' = Inr (Some t)" and "t \<noteq> []"
      and "config_get config ''motifData'' ''genome'' = Inr (Some g)"
      and "get_numthreads config = Inr n"
      and "config_get config ''chromatinData'' ''fastafile'' = Inr (Some f)" and "f \<noteq> []"
      and "\<not> os_path_exists t w1 \<or> \<not> os_path_exists f w1"
  shows "step2 sys progdir config keeprunning outfile w1 =
           (Inr (0, Some t, Some g, Some []),
            print ''Missing FASTA file or TAMO file - check your config file and try again.'' w1) \<and>
         step3 sys progdir 0 outfile (Some t) (Some []) w2 = (Inr (0, []), w2) \<and>
         take (length (calls w1)) (calls (snd (main sys progdir opts [cf] config w))) = calls w1 \<and>
         list_all (\<lambda>c. fst c = NetworkExport)
           (drop (length (calls w1)) (calls (snd (main sys progdir opts [cf] config w)))) \<and>
         fst (main sys progdir opts [cf] config w) \<noteq> Inl SystemExit"
proof -
  let ?w2 = "print ''Missing FASTA file or TAMO file - check your config file and try again.'' w1"
  from step1_result [OF assms(1)] have k: "keeprunning = 0" by simp
  have s2: "step2 sys progdir config keeprunning outfile w1 = (Inr (0, Some t, Some g, Some []), ?w2)"
    using assms(2-8) k
    by (auto simp: step2_def with_value_def nonblank_def stop_unless_zero_def)
  have s3: "step3 sys progdir 0 outfile (Some t) (Some []) w' = (Inr (0, []), w')" for w'
    by (simp add: step3_def and_then_def stop_unless_zero_def)
  let ?n = "network_step sys progdir opts config (Some g) [] ?w2"
  have m: "main sys progdir opts [cf] config w =
     and_then ?n (\<lambda>u w4.
       and_then (step4 sys progdir config 0 [] w4) (\<lambda>(keeprunning, tfs) w5.
         (Inr \<lparr>art_outfile = outfile, art_binding_out = Some [],
               art_binding_matrix = [], art_tfs = tfs\<rparr>, w5)))"
    using assms(1) s2 s3 [of ?w2] by (simp add: main_def and_then_def)
  have tail: "take (length (calls w1)) (calls (snd (main sys progdir opts [cf] config w))) = calls w1 \<and>
         list_all (\<lambda>c. fst c = NetworkExport)
           (drop (length (calls w1)) (calls (snd (main sys progdir opts [cf] config w)))) \<and>
         fst (main sys progdir opts [cf] config w) \<noteq> Inl SystemExit"
  proof (cases ?n)
    case (Pair r w3)
    from network_step_calls [of ?w2 sys progdir opts config "Some g" "[]"] Pair
    have n: "take (length (calls w1)) (calls w3) = calls w1"
      "list_all (\<lambda>c. fst c = NetworkExport) (drop (length (calls w1)) (calls w3))"
      "r \<noteq> Inl SystemExit"
      by simp_all
    show ?thesis
    proof (cases r)
      case (Inl e)
      with Pair n show ?thesis unfolding m by (simp add: and_then_def)
    next
      case (Inr u)
      obtain r4 w4 where s4: "step4 sys progdir config 0 [] w3 = (r4, w4)" by (metis surj_pair)
      with step4_no_matrix [of sys progdir config w3]
      have c4: "calls w4 = calls w3" "r4 \<noteq> Inl SystemExit" by simp_all
      show ?thesis
        unfolding m using Pair Inr s4 c4 n
        by (cases r4) (auto simp: and_then_def)
    qed
  qed
  from s2 s3 [of w2] tail show ?thesis by simp
qed

theorem missing_motif_files_skip_witness:
  "fst (step1 sys_ok ''bin'' demo_opts demo_config bare_world) =
     Inr (0, ''reventsWithin2000/events_to_genes.xls'') \<and>
   \<not> os_path_exists ''m.tamo'' (snd (step1 sys_ok ''bin'' demo_opts demo_config bare_world)) \<and>
   calls (snd (main sys_ok ''bin'' demo_opts [''c.cfg''] demo_config bare_world)) =
     calls (snd (step1 sys_ok ''bin'' demo_opts demo_config bare_world)) \<and>
   fst (main sys_ok ''bin'' demo_opts [''c.cfg''] demo_config bare_world) =
     Inr \<lparr>art_outfile = ''reventsWithin2000/events_to_genes.xls'', art_binding_out = Some [],
          art_binding_matrix = [], art_tfs = None\<rparr>"
proof -
  obtain w1 where s1: "step1 sys_ok ''bin'' demo_opts demo_config bare_world =
      (Inr (0, ''reventsWithin2000/events_to_genes.xls''), w1)"
    by (simp add: eval_defs os_system_eq)
  have fw: "files w1 = {}"
    using s1 [symmetric] by (simp add: eval_defs os_system_eq print_def)
  have t: "config_get demo_config ''motifData'' ''tamo_file'' = Inr (Some ''m.tamo'')"
    and g: "config_get demo_config ''motifData'' ''genome'' = Inr (Some ''hg19'')"
    and n: "get_numthreads demo_config = Inr ''4''"
    and f: "config_get demo_config ''chromatinData'' ''fastafile'' = Inr (Some ''r.fasta'')"
    by (simp_all add: driver_defs sample_defs)
  have x: "\<not> os_path_exists ''m.tamo'' w1 \<or> \<not> os_path_exists ''r.fasta'' w1"
    using fw by (simp add: os_path_exists_def)
  have r: "fst (main sys_ok ''bin'' demo_opts [''c.cfg''] demo_config bare_world) =
     Inr \<lparr>art_outfile = ''reventsWithin2000/events_to_genes.xls'', art_binding_out = Some [],
          art_binding_matrix = [], art_tfs = None\<rparr>"
    by (simp add: eval_defs os_system_eq)
  have c: "calls (snd (main sys_ok ''bin'' demo_opts [''c.cfg''] demo_config bare_world)) =
     calls (snd (step1 sys_ok ''bin'' demo_opts demo_config bare_world))"
    by (simp add: eval_defs os_system_eq print_def)
  from missing_motif_files_skip [OF s1 t _ g n f _ x, of w1 "''c.cfg''"] s1 fw r c
  show ?thesis by (simp add: os_path_exists_def)
qed

subsection \<open>Files that are already there\<close>









end
